theory Spec2Isabelle
  imports Complex_Main
begin

section \<open>Python values, exceptions and text\<close>

text \<open>
  The statistics code of \<^verbatim>\<open>segy_info_extractor.py\<close> and \<^verbatim>\<open>segy_handler.py\<close> works on
  Python scalars (ints, floats, strings, \<^verbatim>\<open>None\<close>), on dicts built in insertion order and
  on pandas/numpy columns of trace-header values.

  A float is modelled by its value: a finite float is the rational number it denotes,
  and the special values (negative zero, NaN, the infinities) are separate constructors.
  A division rounds its result to binary64 (\<open>fl\<close> below). Integers and their sums and
  differences are taken exactly, as binary64 holds them below \<open>2^53\<close>.
\<close>

datatype pyfloat = Finite rat | NegZero | NaN | PosInf | NegInf

datatype pyval =
    PNone
  | PBool bool
  | PInt int
  | PFloat pyfloat
  | PStr string
  | PList "pyval list"
  | PDict "(string \<times> pyval) list"

text \<open>
  The exception classes the code raises, catches or lets through, with their message.
  \<open>NotModelled\<close> is not a Python exception: it marks the one computation this model
  leaves out, \<^verbatim>\<open>str()\<close> of a float, a list or a dict.
\<close>

datatype exn =
    ValueError string
  | RuntimeError string
  | FileNotFoundError string
  | KeyError string
  | TypeError string
  | AttributeError string
  | Exception string
  | NotModelled string

text \<open>\<^verbatim>\<open>str(e)\<close> of an exception is its message.\<close>

fun str_exn :: "exn \<Rightarrow> string" where
  "str_exn (ValueError m) = m"
| "str_exn (RuntimeError m) = m"
| "str_exn (FileNotFoundError m) = m"
| "str_exn (KeyError m) = m"
| "str_exn (TypeError m) = m"
| "str_exn (AttributeError m) = m"
| "str_exn (Exception m) = m"
| "str_exn (NotModelled m) = m"

text \<open>Sequencing of a computation that may raise: the first exception is the result.\<close>

definition thenE :: "exn + 'a \<Rightarrow> ('a \<Rightarrow> exn + 'b) \<Rightarrow> exn + 'b" where
  "thenE m f = (case m of Inl e \<Rightarrow> Inl e | Inr x \<Rightarrow> f x)"

subsection \<open>Decimal text\<close>

definition digit_char :: "nat \<Rightarrow> char" where
  "digit_char d = ''0123456789'' ! d"

fun str_nat :: "nat \<Rightarrow> string" where
  "str_nat n = (if n < 10 then [digit_char n] else str_nat (n div 10) @ [digit_char (n mod 10)])"

declare str_nat.simps [simp del]

text \<open>\<^verbatim>\<open>str(i)\<close> of an int.\<close>

definition str_int :: "int \<Rightarrow> string" where
  "str_int i = (if i < 0 then CHR ''-'' # str_nat (nat (- i)) else str_nat (nat i))"

text \<open>
  \<^verbatim>\<open>f"{x:.2f}"\<close>: the value rounded to two decimals, ties to even on the exact value,
  with the sign of the value kept also when the digits are all zero.
\<close>

definition round_half_even :: "rat \<Rightarrow> int" where
  "round_half_even r =
     (let f = \<lfloor>r\<rfloor>; d = r - of_int f
      in if d < 1 / 2 then f else if 1 / 2 < d then f + 1 else if even f then f else f + 1)"

text \<open>
  Rounding to binary64: the nearest number with 53 significant bits, ties to the even
  one. \<open>ilog2 a\<close> is the exponent \<open>k\<close> with \<open>2^k \<le> a < 2^(k + 1)\<close> of a positive \<open>a\<close>.
  The exponent range of binary64 is not modelled (nothing overflows or underflows): the
  quotients of the integers of a SEG-Y file are far from both ends.
\<close>

fun bit_length :: "nat \<Rightarrow> nat" where
  "bit_length n = (if n = 0 then 0 else Suc (bit_length (n div 2)))"

declare bit_length.simps [simp del]

definition ilog2 :: "rat \<Rightarrow> int" where
  "ilog2 a =
     (if 1 \<le> a then int (bit_length (nat \<lfloor>a\<rfloor>)) - 1
      else (let j = int (bit_length (nat \<lfloor>1 / a\<rfloor>)) - 1
            in if a * 2 powi j = 1 then - j else - j - 1))"

definition fl :: "rat \<Rightarrow> rat" where
  "fl r =
     (if r = 0 then 0
      else (let e = ilog2 \<bar>r\<bar> - 52; m = round_half_even (\<bar>r\<bar> / 2 powi e)
            in sgn r * of_int m * 2 powi e))"

definition fixed2 :: "rat \<Rightarrow> string" where
  "fixed2 r =
     (let n = nat (round_half_even (r * 100))
      in str_nat (n div 100) @ ''.'' @ [digit_char (n mod 100 div 10), digit_char (n mod 10)])"

fun format_2f :: "pyfloat \<Rightarrow> string" where
  "format_2f (Finite r) = (if r < 0 then CHR ''-'' # fixed2 (- r) else fixed2 r)"
| "format_2f NegZero = ''-0.00''"
| "format_2f NaN = ''nan''"
| "format_2f PosInf = ''inf''"
| "format_2f NegInf = ''-inf''"

text \<open>\<^verbatim>\<open>s.rstrip(c)\<close> for a single character \<open>c\<close>.\<close>

definition rstrip :: "char \<Rightarrow> string \<Rightarrow> string" where
  "rstrip c s = rev (dropWhile (\<lambda>x. x = c) (rev s))"

subsection \<open>The numeric formatting rule\<close>

text \<open>
  \<^verbatim>\<open>
  def format_number(value):
      if isinstance(value, (np.floating, float)):
          return f"{float(value):.2f}".rstrip('0').rstrip('.')
      if isinstance(value, (np.integer, int)):
          return int(value)
      return value
  \<close>
  A Python \<^verbatim>\<open>bool\<close> is an instance of \<^verbatim>\<open>int\<close>, so it takes the second branch.
\<close>

fun format_number :: "pyval \<Rightarrow> pyval" where
  "format_number (PFloat x) = PStr (rstrip CHR ''.'' (rstrip CHR ''0'' (format_2f x)))"
| "format_number (PInt i) = PInt i"
| "format_number (PBool b) = PInt (if b then 1 else 0)"
| "format_number v = v"

section \<open>Header tables and columns\<close>

text \<open>
  A pandas \<^verbatim>\<open>DataFrame\<close> of trace headers: the row labels (its index) and the named
  columns in order. Trace-header fields of a SEG-Y file are integers. \<^verbatim>\<open>len(df)\<close> is
  the number of rows, \<^verbatim>\<open>key in df\<close> tests the column names.
\<close>

record dataframe =
  df_index :: "int list"
  df_columns :: "(string \<times> int list) list"

definition df_len :: "dataframe \<Rightarrow> nat" where
  "df_len df = length (df_index df)"

text \<open>
  What \<^verbatim>\<open>get_trace_header_value\<close> hands to the statistics: the pandas column of the
  table, or the numpy array \<^verbatim>\<open>np.zeros(n)\<close> of \<open>n\<close> float zeros.
  \<^verbatim>\<open>
  def get_trace_header_value(self, key):
      if key in self.trace_headers:
          return self.trace_headers[key]
      else:
          return np.zeros(len(self.trace_headers))
  \<close>
\<close>

datatype header_value = Column "int list" | Zeros nat

definition get_trace_header_value :: "dataframe \<Rightarrow> string \<Rightarrow> header_value" where
  "get_trace_header_value trace_headers key =
     (case map_of (df_columns trace_headers) key of
        Some xs \<Rightarrow> Column xs
      | None \<Rightarrow> Zeros (df_len trace_headers))"

text \<open>The values of a column as numbers, in row order.\<close>

fun hv_values :: "header_value \<Rightarrow> rat list" where
  "hv_values (Column xs) = map of_int xs"
| "hv_values (Zeros n) = replicate n 0"

subsection \<open>Reductions of pandas and numpy\<close>

text \<open>
  \<^verbatim>\<open>.max()\<close> and \<^verbatim>\<open>.min()\<close>: on a pandas column of ints the result is an integer, and NaN
  when the column is empty; on \<^verbatim>\<open>np.zeros(n)\<close> it is the float zero, and numpy raises
  \<^verbatim>\<open>ValueError\<close> when the array is empty.
\<close>

fun hv_max :: "header_value \<Rightarrow> exn + pyval" where
  "hv_max (Column xs) = Inr (if xs = [] then PFloat NaN else PInt (Max (set xs)))"
| "hv_max (Zeros n) =
     (if n = 0 then Inl (ValueError ''zero-size array to reduction operation maximum which has no identity'')
      else Inr (PFloat (Finite 0)))"

fun hv_min :: "header_value \<Rightarrow> exn + pyval" where
  "hv_min (Column xs) = Inr (if xs = [] then PFloat NaN else PInt (Min (set xs)))"
| "hv_min (Zeros n) =
     (if n = 0 then Inl (ValueError ''zero-size array to reduction operation minimum which has no identity'')
      else Inr (PFloat (Finite 0)))"

text \<open>
  \<^verbatim>\<open>.mean()\<close>: the sum divided by the count in binary64, NaN on an empty column or
  array.
\<close>

definition mean_list :: "rat list \<Rightarrow> pyfloat" where
  "mean_list xs = (if xs = [] then NaN else Finite (fl (sum_list xs / of_nat (length xs))))"

definition hv_mean :: "header_value \<Rightarrow> pyfloat" where
  "hv_mean v = mean_list (hv_values v)"

text \<open>
  \<^verbatim>\<open>value / 1000\<close>: true division, for every number the quotient rounded to binary64.
\<close>

fun truediv_1000 :: "pyval \<Rightarrow> exn + pyval" where
  "truediv_1000 (PInt i) = Inr (PFloat (Finite (fl (of_int i / 1000))))"
| "truediv_1000 (PBool b) = Inr (PFloat (Finite (fl ((if b then 1 else 0) / 1000))))"
| "truediv_1000 (PFloat (Finite r)) = Inr (PFloat (Finite (fl (r / 1000))))"
| "truediv_1000 (PFloat x) = Inr (PFloat x)"
| "truediv_1000 v = Inl (TypeError ''unsupported operand type(s) for /'')"

text \<open>
  \<^verbatim>\<open>pd.Series(v).diff()\<close>: a float column, NaN in the first row and the successive
  differences after it.
\<close>

definition succ_diffs :: "rat list \<Rightarrow> rat list" where
  "succ_diffs xs = map (\<lambda>(a, b). b - a) (zip xs (tl xs))"

definition pd_diff :: "header_value \<Rightarrow> pyfloat list" where
  "pd_diff v = (case hv_values v of [] \<Rightarrow> [] | x # xs \<Rightarrow> NaN # map Finite (succ_diffs (x # xs)))"

text \<open>The rows of a float column that are not NaN (pandas skips NaN in \<^verbatim>\<open>mean\<close> and \<^verbatim>\<open>mode\<close>).\<close>

fun not_nan :: "pyfloat list \<Rightarrow> rat list" where
  "not_nan [] = []"
| "not_nan (Finite r # xs) = r # not_nan xs"
| "not_nan (x # xs) = not_nan xs"

definition pd_mean :: "pyfloat list \<Rightarrow> pyfloat" where
  "pd_mean s = mean_list (not_nan s)"

text \<open>
  \<^verbatim>\<open>.mode()\<close>: the most frequent values in ascending order; \<^verbatim>\<open>[0]\<close> takes the first and
  raises \<^verbatim>\<open>KeyError\<close> when there is none.
\<close>

definition pd_mode :: "pyfloat list \<Rightarrow> rat list" where
  "pd_mode s =
     (let vs = not_nan s
      in if vs = [] then []
         else sort (remdups (filter (\<lambda>v. count_list vs v = Max (set (map (count_list vs) vs))) vs)))"

definition mode_0 :: "pyfloat list \<Rightarrow> exn + rat" where
  "mode_0 s = (case pd_mode s of [] \<Rightarrow> Inl (KeyError ''0'') | m # _ \<Rightarrow> Inr m)"

text \<open>\<^verbatim>\<open>x > 0\<close> and \<^verbatim>\<open>x == 0\<close> on a float: every comparison with NaN is false.\<close>

fun float_gt_0 :: "pyfloat \<Rightarrow> bool" where
  "float_gt_0 (Finite r) = (0 < r)"
| "float_gt_0 PosInf = True"
| "float_gt_0 x = False"

fun float_eq_0 :: "pyfloat \<Rightarrow> bool" where
  "float_eq_0 (Finite r) = (r = 0)"
| "float_eq_0 NegZero = True"
| "float_eq_0 x = False"

text \<open>\<^verbatim>\<open>value == 0\<close> and \<^verbatim>\<open>value == None\<close> on any value: a string is never equal to a number.\<close>

fun py_eq_0 :: "pyval \<Rightarrow> bool" where
  "py_eq_0 (PInt i) = (i = 0)"
| "py_eq_0 (PBool b) = (\<not> b)"
| "py_eq_0 (PFloat x) = float_eq_0 x"
| "py_eq_0 v = False"

fun py_is_none :: "pyval \<Rightarrow> bool" where
  "py_is_none PNone = True"
| "py_is_none v = False"

text \<open>\<^verbatim>\<open>len(np.unique(v))\<close> and \<^verbatim>\<open>len(pd.Series(v).unique())\<close>: the number of distinct values.\<close>

definition n_unique :: "header_value \<Rightarrow> nat" where
  "n_unique v = length (remdups (hv_values v))"

text \<open>
  \<^verbatim>\<open>np.std(v) != 0\<close>. The standard deviation (population, \<^verbatim>\<open>ddof=0\<close>) is the square root
  of the population variance, so it is zero exactly when the variance is; the variance
  is computed here. On an empty column or array the deviation is NaN, and
  \<^verbatim>\<open>NaN != 0\<close> is true.
\<close>

definition np_var :: "rat list \<Rightarrow> rat" where
  "np_var xs =
     (let n = of_nat (length xs); m = sum_list xs / n
      in sum_list (map (\<lambda>x. (x - m) ^ 2) xs) / n)"

definition np_std_ne_0 :: "header_value \<Rightarrow> bool" where
  "np_std_ne_0 v = (let xs = hv_values v in xs = [] \<or> np_var xs \<noteq> 0)"

text \<open>
  \<^verbatim>\<open>pd.Series(v).groupby(v).size()\<close>: one row per distinct value, in ascending order of
  the value, holding the number of rows with that value.
\<close>

definition groupby_size :: "header_value \<Rightarrow> nat list" where
  "groupby_size v = (let xs = hv_values v in map (count_list xs) (sort (remdups xs)))"

text \<open>\<^verbatim>\<open>np.median\<close> of \<^verbatim>\<open>np.diff(np.sort(np.unique(v)))\<close>; NaN when there are no differences.\<close>

definition np_median :: "rat list \<Rightarrow> pyfloat" where
  "np_median xs =
     (let ys = sort xs; n = length ys
      in if n = 0 then NaN
         else if odd n then Finite (ys ! (n div 2))
         else Finite ((ys ! (n div 2 - 1) + ys ! (n div 2)) / 2))"

definition unique_spacing :: "header_value \<Rightarrow> rat list" where
  "unique_spacing v = succ_diffs (sort (remdups (hv_values v)))"

subsection \<open>Dicts in insertion order\<close>

text \<open>\<^verbatim>\<open>d[k] = v\<close>: an existing key keeps its place and takes the new value, a new key goes last.\<close>

fun dict_set :: "(string \<times> 'v) list \<Rightarrow> string \<Rightarrow> 'v \<Rightarrow> (string \<times> 'v) list" where
  "dict_set [] k v = [(k, v)]"
| "dict_set ((k', v') # d) k v = (if k' = k then (k, v) # d else (k', v') # dict_set d k v)"

text \<open>\<^verbatim>\<open>d.update(e)\<close>.\<close>

definition dict_update :: "(string \<times> 'v) list \<Rightarrow> (string \<times> 'v) list \<Rightarrow> (string \<times> 'v) list" where
  "dict_update d e = fold (\<lambda>(k, v) acc. dict_set acc k v) e d"

subsection \<open>Strings\<close>

definition NL :: string where
  "NL = [CHR 0x0A]"

text \<open>\<^verbatim>\<open>needle in haystack\<close> on strings: \<open>needle\<close> occurs as a contiguous piece.\<close>

fun str_in :: "string \<Rightarrow> string \<Rightarrow> bool" where
  "str_in needle [] = (needle = [])"
| "str_in needle (c # cs) = (take (length needle) (c # cs) = needle \<or> str_in needle cs)"

text \<open>\<^verbatim>\<open>s.startswith("_")\<close>.\<close>

fun startswith_underscore :: "string \<Rightarrow> bool" where
  "startswith_underscore [] = False"
| "startswith_underscore (c # cs) = (c = CHR ''_'')"

text \<open>
  \<^verbatim>\<open>s.lower()\<close> and \<^verbatim>\<open>s.capitalize()\<close>, on the ASCII letters (a character here is a byte).
\<close>

definition lower_char :: "char \<Rightarrow> char" where
  "lower_char c =
     (case map_of (zip ''ABCDEFGHIJKLMNOPQRSTUVWXYZ'' ''abcdefghijklmnopqrstuvwxyz'') c of
        Some l \<Rightarrow> l | None \<Rightarrow> c)"

definition upper_char :: "char \<Rightarrow> char" where
  "upper_char c =
     (case map_of (zip ''abcdefghijklmnopqrstuvwxyz'' ''ABCDEFGHIJKLMNOPQRSTUVWXYZ'') c of
        Some u \<Rightarrow> u | None \<Rightarrow> c)"

definition lower :: "string \<Rightarrow> string" where
  "lower s = map lower_char s"

fun capitalize :: "string \<Rightarrow> string" where
  "capitalize [] = []"
| "capitalize (c # cs) = upper_char c # map lower_char cs"

text \<open>\<^verbatim>\<open>s.replace(old, new)\<close>: every occurrence, left to right, without overlap.\<close>

function str_replace :: "string \<Rightarrow> string \<Rightarrow> string \<Rightarrow> string" where
  "str_replace old new s =
     (if old = [] then new @ concat (map (\<lambda>c. c # new) s)
      else if s = [] then []
      else if take (length old) s = old then new @ str_replace old new (drop (length old) s)
      else hd s # str_replace old new (tl s))"
  by pat_completeness auto
termination
  by (relation "measure (\<lambda>(old, new, s). length s)") auto

declare str_replace.simps [simp del]

text \<open>\<^verbatim>\<open>sep.join(lines)\<close>.\<close>

fun join :: "string \<Rightarrow> string list \<Rightarrow> string" where
  "join sep [] = []"
| "join sep [l] = l"
| "join sep (l # ls) = l @ sep @ join sep ls"

text \<open>
  \<^verbatim>\<open>str(v)\<close>, as an f-string renders a value. The statistics are strings and ints by the
  time they are rendered; the text Python gives a float, a list or a dict is not modelled.
\<close>

fun py_str :: "pyval \<Rightarrow> exn + string" where
  "py_str (PStr s) = Inr s"
| "py_str (PInt i) = Inr (str_int i)"
| "py_str PNone = Inr ''None''"
| "py_str (PBool b) = Inr (if b then ''True'' else ''False'')"
| "py_str v = Inl (NotModelled ''str'')"

text \<open>\<^verbatim>\<open>d[k]\<close> on a dict raises \<^verbatim>\<open>KeyError\<close> for a missing key.\<close>

definition dict_get :: "(string \<times> 'v) list \<Rightarrow> string \<Rightarrow> exn + 'v" where
  "dict_get d k = (case map_of d k of None \<Rightarrow> Inl (KeyError k) | Some v \<Rightarrow> Inr v)"

text \<open>The pieces of an f-string, evaluated left to right: the first exception, or the text.\<close>

fun concatE :: "(exn + string) list \<Rightarrow> exn + string" where
  "concatE [] = Inr []"
| "concatE (p # ps) = thenE p (\<lambda>a. thenE (concatE ps) (\<lambda>b. Inr (a @ b)))"

section \<open>SEG-Y files, as the libraries show them\<close>

text \<open>
  The SEG-Y decoding is done by the libraries segyio and segysak, which are not part of
  the repository. A SEG-Y file is modelled by what those calls return for it:
  \<^item> whether \<^verbatim>\<open>segyio.open(path, "r", ignore_geometry=False)\<close> and
    \<^verbatim>\<open>segyio.open(path, "r", ignore_geometry=True)\<close> raise, and what;
  \<^item> the binary header \<^verbatim>\<open>f.bin\<close>, by the attribute names of \<^verbatim>\<open>segyio.BinField\<close> that can
    be read (reading any other name raises);
  \<^item> \<^verbatim>\<open>f.tracecount\<close>;
  \<^item> the textual header \<^verbatim>\<open>get_segy_texthead(path)\<close>;
  \<^item> the column \<^verbatim>\<open>mean\<close> of \<^verbatim>\<open>segy_header_scan(path)\<close>, by field name in the scan's row
    order;
  \<^item> the table \<^verbatim>\<open>segy_header_scrape(path, partial_scan=None)\<close>.
\<close>

record segy_file =
  sf_strict_error :: "exn option"
  sf_relaxed_error :: "exn option"
  sf_bin :: "(string \<times> pyval) list"
  sf_tracecount :: nat
  sf_texthead :: string
  sf_scan_mean :: "(string \<times> pyfloat) list"
  sf_scrape :: dataframe

text \<open>An open segyio file: the file and the mode it was opened in.\<close>

record handle =
  h_file :: segy_file
  h_ignore_geometry :: bool

text \<open>A file on disk is readable with its content, or unreadable with the reader's message.\<close>

datatype 'a disk_file = Readable 'a | Unreadable string

text \<open>
  The state the code runs in: the files of the data directory by path (SEG-Y files,
  Parquet tables, text files), the JSON files of its \<^verbatim>\<open>metadata\<close> directory, and the
  attribute names \<^verbatim>\<open>dir(segyio.BinField)\<close> lists. \<open>segy_opens\<close> is instrumentation that is
  not in the source: it counts the calls of \<^verbatim>\<open>segyio.open\<close> made so far.
\<close>

record world =
  segy_files :: "string \<rightharpoonup> segy_file"
  parquet_files :: "string \<rightharpoonup> dataframe disk_file"
  json_files :: "string \<rightharpoonup> pyval disk_file"
  txt_files :: "string \<rightharpoonup> string"
  binfield_dir :: "string list"
  segy_opens :: nat

definition segyio_open :: "world \<Rightarrow> string \<Rightarrow> bool \<Rightarrow> (exn + handle) \<times> world" where
  "segyio_open w path ignore_geometry =
     (case segy_files w path of
        None \<Rightarrow> Inl (FileNotFoundError path)
      | Some f \<Rightarrow>
          (case (if ignore_geometry then sf_relaxed_error f else sf_strict_error f) of
             Some e \<Rightarrow> Inl e
           | None \<Rightarrow> Inr \<lparr>h_file = f, h_ignore_geometry = ignore_geometry\<rparr>),
      w\<lparr>segy_opens := segy_opens w + 1\<rparr>)"

definition get_segy_texthead :: "world \<Rightarrow> string \<Rightarrow> exn + string" where
  "get_segy_texthead w path =
     (case segy_files w path of
        None \<Rightarrow> Inl (FileNotFoundError path)
      | Some f \<Rightarrow> Inr (sf_texthead f))"

section \<open>The statistics extractor\<close>

definition NAMES_EN :: "(string \<times> string) list" where
  "NAMES_EN =
     [(''Interval'', ''sampling_rate''),
      (''Samples'', ''num_samples''),
      (''Format'', ''data_format''),
      (''MeasurementSystem'', ''measurement_code''),
      (''SEGYRevision'', ''segy_revision''),
      (''SEGYRevisionMinor'', ''segy_revision_minor''),
      (''LineNumber'', ''line_number'')]"

definition READABLE_NAMES :: "(string \<times> string) list" where
  "READABLE_NAMES =
     [(''sampling_rate'', ''Sampling Rate (ms)''),
      (''num_samples'', ''Samples per Trace''),
      (''data_format'', ''Data Format''),
      (''measurement_code'', ''Measurement Code''),
      (''segy_revision'', ''SEG-Y Revision (Major)''),
      (''segy_revision_minor'', ''SEG-Y Revision (Minor)''),
      (''line_number'', ''Line Number''),
      (''data_type'', ''Data Type'')]"

text \<open>\<^verbatim>\<open>table.get(key, default)\<close>.\<close>

definition get_or :: "(string \<times> 'v) list \<Rightarrow> string \<Rightarrow> 'v \<Rightarrow> 'v" where
  "get_or table key dflt = (case map_of table key of Some v \<Rightarrow> v | None \<Rightarrow> dflt)"

text \<open>
  The fields of a \<^verbatim>\<open>SegyInfoExtractor\<close>. \<open>trace_headers\<close> is the table read from the
  Parquet file of the headers; \<open>is_3d\<close> and \<open>segyio_file\<close> are \<^verbatim>\<open>None\<close> until the extractor
  is entered.
\<close>

record extractor =
  segy_file_path :: string
  trace_headers :: dataframe
  is_3d :: "bool option"
  segyio_file :: "handle option"

text \<open>
  \<^verbatim>\<open>
  def __enter__(self):
      try:
          self.segyio_file = segyio.open(self.segy_file_path, "r", ignore_geometry=False)
          self.is_3d = True
      except RuntimeError as e:
          if "unable to find sorting" in str(e):
              self.segyio_file = segyio.open(self.segy_file_path, "r", ignore_geometry=True)
              self.is_3d = False
          else:
              raise e
      return self
  \<close>
\<close>

definition enter :: "world \<Rightarrow> extractor \<Rightarrow> (exn + extractor) \<times> world" where
  "enter w self =
     (case segyio_open w (segy_file_path self) False of
        (Inr f, w1) \<Rightarrow> (Inr (self\<lparr>is_3d := Some True, segyio_file := Some f\<rparr>), w1)
      | (Inl e, w1) \<Rightarrow>
          (case e of
             RuntimeError m \<Rightarrow>
               if str_in ''unable to find sorting'' m
               then (case segyio_open w1 (segy_file_path self) True of
                       (Inr f, w2) \<Rightarrow> (Inr (self\<lparr>is_3d := Some False, segyio_file := Some f\<rparr>), w2)
                     | (Inl e2, w2) \<Rightarrow> (Inl e2, w2))
               else (Inl e, w1)
           | _ \<Rightarrow> (Inl e, w1)))"

text \<open>\<^verbatim>\<open>if self.is_3d\<close>: \<^verbatim>\<open>None\<close> and \<^verbatim>\<open>False\<close> are both falsy.\<close>

definition truthy_3d :: "extractor \<Rightarrow> bool" where
  "truthy_3d self = (is_3d self = Some True)"

subsection \<open>Binary header\<close>

text \<open>
  \<^verbatim>\<open>self.segyio_file.bin[getattr(segyio.BinField, field_name)]\<close>: raises when the extractor
  has no open file or the name is not a field that can be read.
\<close>

definition bin_read :: "handle option \<Rightarrow> string \<Rightarrow> exn + pyval" where
  "bin_read file field_name =
     (case file of
        None \<Rightarrow> Inl (AttributeError ''bin'')
      | Some f \<Rightarrow> dict_get (sf_bin (h_file f)) field_name)"

text \<open>
  One round of the loop of \<^verbatim>\<open>extract_binary_header_info\<close> over
  \<^verbatim>\<open>dir(segyio.BinField)\<close>:
  \<^verbatim>\<open>
  for field_name in dir(segyio.BinField):
      if field_name.startswith("_"):
          continue
      try:
          field = getattr(segyio.BinField, field_name)
          value = self.segyio_file.bin[field]
          if field_name == "Interval":
              value = self.format_number(value / 1000)
          if value not in [None, 0]:
              name = NAMES_EN.get(field_name, field_name)
              extracted_fields[name] = value
      except Exception:
          continue
  extracted_fields["data_type"] = "3D" if self.is_3d else "2D"
  \<close>
\<close>

definition bin_field_value :: "handle option \<Rightarrow> string \<Rightarrow> exn + pyval" where
  "bin_field_value file field_name =
     thenE (bin_read file field_name) (\<lambda>value.
       if field_name = ''Interval''
       then thenE (truediv_1000 value) (\<lambda>q. Inr (format_number q))
       else Inr value)"

definition bin_field_step ::
  "handle option \<Rightarrow> (string \<times> pyval) list \<Rightarrow> string \<Rightarrow> (string \<times> pyval) list" where
  "bin_field_step file extracted_fields field_name =
     (if startswith_underscore field_name then extracted_fields
      else case bin_field_value file field_name of
             Inl e \<Rightarrow> extracted_fields
           | Inr value \<Rightarrow>
               if py_is_none value \<or> py_eq_0 value then extracted_fields
               else dict_set extracted_fields (get_or NAMES_EN field_name field_name) value)"

definition extract_binary_header_info :: "string list \<Rightarrow> extractor \<Rightarrow> (string \<times> pyval) list" where
  "extract_binary_header_info dir_BinField self =
     dict_set
       (fold (\<lambda>field_name extracted_fields. bin_field_step (segyio_file self) extracted_fields field_name)
          dir_BinField [])
       ''data_type'' (PStr (if truthy_3d self then ''3D'' else ''2D''))"

subsection \<open>Basic, geometry and acquisition information\<close>

text \<open>
  \<^verbatim>\<open>extract_basic_info\<close>. The entries of the dict are evaluated in the order they are
  written, so the first reduction that raises decides the exception.
\<close>

definition extract_basic_info :: "extractor \<Rightarrow> exn + (string \<times> pyval) list" where
  "extract_basic_info self =
     (let hv = get_trace_header_value (trace_headers self)
      in thenE (thenE (hv_max (hv ''DelayRecordingTime'')) truediv_1000) (\<lambda>recording_time.
         thenE (mode_0 (pd_diff (hv ''SourceX''))) (\<lambda>mode.
         thenE (hv_min (hv ''offset'')) (\<lambda>min_offset.
         thenE (hv_max (hv ''offset'')) (\<lambda>max_offset.
         thenE (hv_min (hv ''CDP'')) (\<lambda>first_cdp.
         thenE (hv_max (hv ''CDP'')) (\<lambda>last_cdp.
         let info =
           [(''recording_time'', format_number recording_time),
            (''shot_point_distance'', format_number (PFloat (Finite \<bar>mode\<bar>))),
            (''plot_direction'',
               PStr (if float_gt_0 (pd_mean (pd_diff (hv ''SourceX''))) then ''LR'' else ''RL'')),
            (''min_offset'', format_number min_offset),
            (''max_offset'', format_number max_offset),
            (''num_channels'', format_number (PInt (int (n_unique (hv ''TraceNumber''))))),
            (''first_cdp'', format_number first_cdp),
            (''last_cdp'', format_number last_cdp)]
         in if truthy_3d self
            then thenE (hv_min (hv ''INLINE_3D'')) (\<lambda>first_inline.
                 thenE (hv_max (hv ''INLINE_3D'')) (\<lambda>last_inline.
                 thenE (hv_min (hv ''CROSSLINE_3D'')) (\<lambda>first_crossline.
                 thenE (hv_max (hv ''CROSSLINE_3D'')) (\<lambda>last_crossline.
                 Inr (dict_update info
                   [(''first_inline'', format_number first_inline),
                    (''last_inline'', format_number last_inline),
                    (''first_crossline'', format_number first_crossline),
                    (''last_crossline'', format_number last_crossline)])))))
            else Inr info)))))))"

definition extract_geometry_info :: "extractor \<Rightarrow> exn + (string \<times> pyval) list" where
  "extract_geometry_info self =
     (let hv = get_trace_header_value (trace_headers self)
      in case segyio_file self of
           None \<Rightarrow> Inl (AttributeError ''tracecount'')
         | Some f \<Rightarrow>
             thenE (hv_min (hv ''SourceX'')) (\<lambda>x_min.
             thenE (hv_max (hv ''SourceX'')) (\<lambda>x_max.
             thenE (hv_min (hv ''SourceY'')) (\<lambda>y_min.
             thenE (hv_max (hv ''SourceY'')) (\<lambda>y_max.
             let geometry_info =
               [(''total_traces'', PInt (int (sf_tracecount (h_file f)))),
                (''total_shots'', PInt (int (n_unique (hv ''SourceX'')))),
                (''coordinates'', PDict
                   [(''x_min'', format_number x_min),
                    (''x_max'', format_number x_max),
                    (''y_min'', format_number y_min),
                    (''y_max'', format_number y_max)])]
             in Inr (if truthy_3d self
                     then dict_update geometry_info
                       [(''inline_dimensions'', PInt (int (n_unique (hv ''INLINE_3D'')))),
                        (''crossline_dimensions'', PInt (int (n_unique (hv ''CROSSLINE_3D''))))]
                     else geometry_info))))))"

text \<open>
  \<^verbatim>\<open>
  def extract_acquisition_info(self):
      cdp_values = self.get_trace_header_value('CDP')
      if np.std(cdp_values) != 0:
          fold = pd.Series(cdp_values).groupby(cdp_values).size()
          acq_info = {
              "average_fold": self.format_number(fold.mean()),
              "maximum_fold": self.format_number(fold.max()),
              "minimum_fold": self.format_number(fold.min()),
          }
      else:
          acq_info = {
              "average_fold": "Not applicable",
              "maximum_fold": "Not applicable",
              "minimum_fold": "Not applicable",
          }
      if self.is_3d:
          il_spacing = np.diff(np.sort(np.unique(self.get_trace_header_value('INLINE_3D'))))
          xl_spacing = np.diff(np.sort(np.unique(self.get_trace_header_value('CROSSLINE_3D'))))
          acq_info.update({
              "inline_spacing": self.format_number(np.median(il_spacing)),
              "crossline_spacing": self.format_number(np.median(xl_spacing))
          })
      return acq_info
  \<close>
  \<^verbatim>\<open>fold.max()\<close> and \<^verbatim>\<open>fold.min()\<close> are integers, and NaN when there is no group.
\<close>

definition fold_max :: "nat list \<Rightarrow> pyval" where
  "fold_max fold_sizes = (if fold_sizes = [] then PFloat NaN else PInt (int (Max (set fold_sizes))))"

definition fold_min :: "nat list \<Rightarrow> pyval" where
  "fold_min fold_sizes = (if fold_sizes = [] then PFloat NaN else PInt (int (Min (set fold_sizes))))"

definition extract_acquisition_info :: "extractor \<Rightarrow> (string \<times> pyval) list" where
  "extract_acquisition_info self =
     (let hv = get_trace_header_value (trace_headers self);
          cdp_values = hv ''CDP'';
          acq_info =
            (if np_std_ne_0 cdp_values
             then (let fold_sizes = groupby_size cdp_values
                   in [(''average_fold'', format_number (PFloat (mean_list (map of_nat fold_sizes)))),
                       (''maximum_fold'', format_number (fold_max fold_sizes)),
                       (''minimum_fold'', format_number (fold_min fold_sizes))])
             else [(''average_fold'', PStr ''Not applicable''),
                   (''maximum_fold'', PStr ''Not applicable''),
                   (''minimum_fold'', PStr ''Not applicable'')])
      in if truthy_3d self
         then dict_update acq_info
           [(''inline_spacing'', format_number (PFloat (np_median (unique_spacing (hv ''INLINE_3D''))))),
            (''crossline_spacing'', format_number (PFloat (np_median (unique_spacing (hv ''CROSSLINE_3D'')))))]
         else acq_info)"

text \<open>
  \<^verbatim>\<open>
  def extract_scaling_factor(self):
      scalar = self.get_trace_header_value('SourceGroupScalar').mean()
      scalar = self.format_number(scalar)
      return scalar if scalar != 0 else 1
  \<close>
\<close>

definition extract_scaling_factor :: "extractor \<Rightarrow> pyval" where
  "extract_scaling_factor self =
     (let scalar = format_number
            (PFloat (hv_mean (get_trace_header_value (trace_headers self) ''SourceGroupScalar'')))
      in if \<not> py_eq_0 scalar then scalar else PInt 1)"

subsection \<open>The report text\<close>

text \<open>
  \<^verbatim>\<open>
  def format_binary_header_info(bin_head):
      lines = []
      for key, value in bin_head.items():
          name = READABLE_NAMES.get(key, key.replace("_", " ").capitalize())
          lines.append(f"{name}: {value}")
      return "\n".join(lines)
  \<close>
\<close>

fun binary_header_lines :: "(string \<times> pyval) list \<Rightarrow> exn + string list" where
  "binary_header_lines [] = Inr []"
| "binary_header_lines ((key, v) # rest) =
     thenE (py_str v) (\<lambda>text.
     thenE (binary_header_lines rest) (\<lambda>lines.
     Inr ((get_or READABLE_NAMES key (capitalize (str_replace ''_'' '' '' key)) @ '': '' @ text) # lines)))"

definition format_binary_header_info :: "(string \<times> pyval) list \<Rightarrow> exn + string" where
  "format_binary_header_info bin_head = thenE (binary_header_lines bin_head) (\<lambda>lines. Inr (join NL lines))"

text \<open>The dict \<^verbatim>\<open>self.info\<close> that \<^verbatim>\<open>extract_all_info\<close> fills.\<close>

record segy_info =
  basic_information :: "(string \<times> pyval) list"
  binary_header :: "(string \<times> pyval) list"
  geometry :: "(string \<times> pyval) list"
  acquisition :: "(string \<times> pyval) list"
  ascii_header_text :: string

text \<open>\<^verbatim>\<open>{d[k]}\<close> and \<^verbatim>\<open>{d[k1][k2]}\<close> inside an f-string.\<close>

definition shown :: "(string \<times> pyval) list \<Rightarrow> string \<Rightarrow> exn + string" where
  "shown d k = thenE (dict_get d k) py_str"

definition shown2 :: "(string \<times> pyval) list \<Rightarrow> string \<Rightarrow> string \<Rightarrow> exn + string" where
  "shown2 d k1 k2 =
     thenE (dict_get d k1) (\<lambda>v.
       case v of PDict inner \<Rightarrow> shown inner k2
               | _ \<Rightarrow> Inl (TypeError ''not subscriptable''))"

text \<open>\<^verbatim>\<open>get_segy_info_text\<close>: the sections in their fixed order, and the 3D additions.\<close>

definition get_segy_info_text :: "segy_info \<Rightarrow> bool \<Rightarrow> exn + string" where
  "get_segy_info_text info three_d =
     (let basic = basic_information info; geo = geometry info; acq = acquisition info
      in thenE (format_binary_header_info (binary_header info)) (\<lambda>binary_header_info.
         thenE (concatE
           [Inr (''DETAILED INFORMATION OF THE SEG-Y FILE'' @ NL),
            Inr (''INFORMATION CONTAINED IN THE ASCII HEADER:'' @ NL),
            Inr ''ASCII_header: '', Inr (ascii_header_text info),
            Inr (''BASIC INFORMATION:'' @ NL),
            Inr ''Recording Time: '', shown basic ''recording_time'', Inr ('' s'' @ NL),
            Inr ''Distance Between Shot Points: '', shown basic ''shot_point_distance'', Inr ('' m'' @ NL),
            Inr ''Plot Direction: '', shown basic ''plot_direction'', Inr NL,
            Inr ''Offset Range: '', shown basic ''min_offset'', Inr '' - '', shown basic ''max_offset'',
              Inr ('' m'' @ NL),
            Inr ''Number of Channels: '', shown basic ''num_channels'', Inr NL,
            Inr ''CDP Range: '', shown basic ''first_cdp'', Inr '' - '', shown basic ''last_cdp'', Inr NL,
            Inr (NL @ ''BINARY HEADER INFORMATION:'' @ NL),
            Inr binary_header_info,
            Inr (NL @ ''GEOMETRY INFORMATION:'' @ NL),
            Inr ''Total Traces: '', shown geo ''total_traces'', Inr NL,
            Inr ''Total Shots: '', shown geo ''total_shots'', Inr NL,
            Inr (''Coordinates:'' @ NL),
            Inr ''  X: '', shown2 geo ''coordinates'' ''x_min'', Inr '' - '',
              shown2 geo ''coordinates'' ''x_max'', Inr NL,
            Inr ''  Y: '', shown2 geo ''coordinates'' ''y_min'', Inr '' - '',
              shown2 geo ''coordinates'' ''y_max'', Inr NL,
            Inr (NL @ ''ACQUISITION INFORMATION:'' @ NL),
            Inr ''Average Fold: '', shown acq ''average_fold'', Inr NL,
            Inr ''Maximum Fold: '', shown acq ''maximum_fold'', Inr NL,
            Inr ''Minimum Fold: '', shown acq ''minimum_fold'', Inr NL]) (\<lambda>text.
         if three_d
         then thenE (concatE
           [Inr ''Inline Range: '', shown basic ''first_inline'', Inr '' - '', shown basic ''last_inline'',
              Inr NL,
            Inr ''Crossline Range: '', shown basic ''first_crossline'', Inr '' - '',
              shown basic ''last_crossline'', Inr NL,
            Inr ''Inline Dimensions: '', shown geo ''inline_dimensions'', Inr NL,
            Inr ''Crossline Dimensions: '', shown geo ''crossline_dimensions'', Inr NL,
            Inr ''Inline Spacing: '', shown acq ''inline_spacing'', Inr NL,
            Inr ''Crossline Spacing: '', shown acq ''crossline_spacing'', Inr NL]) (\<lambda>more.
           Inr (str_replace ''CDP Range:'' (''CDP Range:'' @ NL) text @ more))
         else Inr text)))"

text \<open>
  \<^verbatim>\<open>
  def extract_all_info(self) -> tuple:
      with self:
          self.info = {
              "basic_information": self.extract_basic_info(),
              "binary_header": self.extract_binary_header_info(),
              "geometry": self.extract_geometry_info(),
              "acquisition": self.extract_acquisition_info(),
              "ascii_header_text": get_segy_texthead(self.segy_file_path)
          }
      information = self.get_segy_info_text()
      scaling_factor = self.extract_scaling_factor()
      return information, scaling_factor
  \<close>
  Leaving the \<^verbatim>\<open>with\<close> block closes the file and lets an exception through.
\<close>

definition extract_all_info :: "world \<Rightarrow> extractor \<Rightarrow> (exn + string \<times> pyval) \<times> world" where
  "extract_all_info w self0 =
     (case enter w self0 of
        (Inl e, w1) \<Rightarrow> (Inl e, w1)
      | (Inr self, w1) \<Rightarrow>
          (thenE (extract_basic_info self) (\<lambda>basic.
           thenE (extract_geometry_info self) (\<lambda>geo.
           thenE (get_segy_texthead w1 (segy_file_path self)) (\<lambda>ascii.
           thenE (get_segy_info_text
                    \<lparr>basic_information = basic,
                     binary_header = extract_binary_header_info (binfield_dir w1) self,
                     geometry = geo,
                     acquisition = extract_acquisition_info self,
                     ascii_header_text = ascii\<rparr>
                    (truthy_3d self)) (\<lambda>information.
           Inr (information, extract_scaling_factor self))))),
           w1))"

section \<open>Files of the data directory\<close>

text \<open>\<^verbatim>\<open>os.path.join(self.data_directory, file_name)\<close> with the data directory \<^verbatim>\<open>./data\<close>.\<close>

definition data_path :: "string \<Rightarrow> string" where
  "data_path file_name = ''./data/'' @ file_name"

text \<open>\<^verbatim>\<open>get_json_filepath\<close>: the file in the \<^verbatim>\<open>metadata\<close> directory of the data directory.\<close>

definition get_json_filepath :: "string \<Rightarrow> string" where
  "get_json_filepath file_name = ''./data/metadata/'' @ file_name"

text \<open>
  \<^verbatim>\<open>
  def read_parquet(self, file_name):
      try:
          file_path = os.path.join(self.data_directory, file_name)
          return pd.read_parquet(file_path)
      except FileNotFoundError:
          raise Exception(f"File {file_path} not found.")
      except Exception as e:
          raise Exception(f"Error reading Parquet file: {str(e)}")
  \<close>
\<close>

definition read_parquet :: "world \<Rightarrow> string \<Rightarrow> exn + dataframe" where
  "read_parquet w file_name =
     (case parquet_files w (data_path file_name) of
        None \<Rightarrow> Inl (Exception (''File '' @ data_path file_name @ '' not found.''))
      | Some (Unreadable m) \<Rightarrow> Inl (Exception (''Error reading Parquet file: '' @ m))
      | Some (Readable df) \<Rightarrow> Inr df)"

text \<open>
  \<^verbatim>\<open>df.to_parquet(file_path, index=False)\<close>: the columns are written without the row
  labels, so the table read back has the labels \<open>0, 1, ...\<close>.
\<close>

definition reset_index :: "dataframe \<Rightarrow> dataframe" where
  "reset_index df = df\<lparr>df_index := map int [0..<length (df_index df)]\<rparr>"

definition to_parquet :: "world \<Rightarrow> dataframe \<Rightarrow> string \<Rightarrow> world" where
  "to_parquet w df file_name =
     w\<lparr>parquet_files := (parquet_files w)(data_path file_name \<mapsto> Readable (reset_index df))\<rparr>"

definition get_columns_from_parquet :: "world \<Rightarrow> string \<Rightarrow> exn + string list" where
  "get_columns_from_parquet w file_name =
     (case read_parquet w file_name of
        Inl e \<Rightarrow> Inl (Exception (''Error getting columns from Parquet file: '' @ str_exn e))
      | Inr df \<Rightarrow> Inr (map fst (df_columns df)))"

text \<open>
  \<^verbatim>\<open>
  def get_segy_file_path(self, file_name):
      possible_extensions = [".sgy", ".segy"]
      for ext in possible_extensions:
          file_path = os.path.join(self.data_directory, f"{file_name}{ext}")
          if os.path.isfile(file_path):
              return file_path
      raise FileNotFoundError(...)
  \<close>
\<close>

definition get_segy_file_path :: "world \<Rightarrow> string \<Rightarrow> exn + string" where
  "get_segy_file_path w file_name =
     (case filter (\<lambda>file_path. segy_files w file_path \<noteq> None)
             (map (\<lambda>ext. data_path (file_name @ ext)) [''.sgy'', ''.segy'']) of
        file_path # _ \<Rightarrow> Inr file_path
      | [] \<Rightarrow> Inl (FileNotFoundError
          (''No SEG-Y file found for '' @ file_name @ '' with .sgy or .segy extension in ./data.'')))"

text \<open>
  \<^verbatim>\<open>save_segy_information_to_json\<close> and \<^verbatim>\<open>load_segy_from_json\<close>. The statistics that are
  saved are dicts, lists, strings and ints, which \<^verbatim>\<open>json.load\<close> reads back as the value
  \<^verbatim>\<open>json.dump\<close> wrote; the stored content is that value.
\<close>

definition save_segy_information_to_json :: "world \<Rightarrow> string \<Rightarrow> pyval \<Rightarrow> world" where
  "save_segy_information_to_json w file_name json_data =
     w\<lparr>json_files := (json_files w)(get_json_filepath file_name \<mapsto> Readable json_data)\<rparr>"

definition load_segy_from_json :: "world \<Rightarrow> string \<Rightarrow> exn + pyval option" where
  "load_segy_from_json w file_name =
     (case json_files w (get_json_filepath file_name) of
        None \<Rightarrow> Inr None
      | Some (Unreadable m) \<Rightarrow> Inl (Exception (''Error loading JSON: '' @ m))
      | Some (Readable json_data) \<Rightarrow> Inr (Some json_data))"

section \<open>The SEG-Y handler\<close>

text \<open>
  \<^verbatim>\<open>
  def get_segy_base_name(self, current_file):
      for name in self.available_segy_files:
          if name in current_file:
              return name
      raise ValueError(f"No base SEG-Y file matching '{current_file}' found.")
  \<close>
\<close>

fun get_segy_base_name :: "string list \<Rightarrow> string \<Rightarrow> exn + string" where
  "get_segy_base_name [] current_file =
     Inl (ValueError (''No base SEG-Y file matching '' @ [CHR 0x27] @ current_file @ [CHR 0x27] @ '' found.''))"
| "get_segy_base_name (name # names) current_file =
     (if str_in name current_file then Inr name else get_segy_base_name names current_file)"

text \<open>\<^verbatim>\<open>df[names]\<close>: the named columns in the order of \<open>names\<close>; \<^verbatim>\<open>KeyError\<close> for a missing one.\<close>

fun select_columns :: "(string \<times> int list) list \<Rightarrow> string list \<Rightarrow> exn + (string \<times> int list) list" where
  "select_columns cols [] = Inr []"
| "select_columns cols (n # ns) =
     (case map_of cols n of
        None \<Rightarrow> Inl (KeyError n)
      | Some xs \<Rightarrow> thenE (select_columns cols ns) (\<lambda>rest. Inr ((n, xs) # rest)))"

text \<open>\<^verbatim>\<open>scan[scan["mean"] != 0].index\<close>: the scanned fields whose mean is not zero.\<close>

definition nonzero_mean_fields :: "(string \<times> pyfloat) list \<Rightarrow> string list" where
  "nonzero_mean_fields scan = map fst (filter (\<lambda>(field, mean). \<not> float_eq_0 mean) scan)"

text \<open>
  \<^verbatim>\<open>
  def read_segy_headers(self, file_name):
      segy_file_path = self.get_segy_file_path(file_name)
      with segyio.open(segy_file_path, "r", ignore_geometry=True) as segyfile:
          scan = segy_header_scan(segy_file_path)
          trace_headers_df = segy_header_scrape(segy_file_path, partial_scan=None)
          trace_headers_df = trace_headers_df[scan[scan["mean"] != 0].index]
          trace_headers_df.reset_index(drop=True, inplace=True)
          trace_headers_df["trace_index"] = trace_headers_df.index
          return trace_headers_df
  \<close>
\<close>

definition read_segy_headers :: "world \<Rightarrow> string \<Rightarrow> (exn + dataframe) \<times> world" where
  "read_segy_headers w file_name =
     (case get_segy_file_path w file_name of
        Inl e \<Rightarrow> (Inl e, w)
      | Inr file_path \<Rightarrow>
          (case segyio_open w file_path True of
             (Inl e, w1) \<Rightarrow> (Inl e, w1)
           | (Inr segyfile, w1) \<Rightarrow>
               (let scan = sf_scan_mean (h_file segyfile);
                    trace_headers_df = sf_scrape (h_file segyfile)
                in thenE (select_columns (df_columns trace_headers_df) (nonzero_mean_fields scan)) (\<lambda>cols.
                   let df = reset_index (trace_headers_df\<lparr>df_columns := cols\<rparr>)
                   in Inr (df\<lparr>df_columns := dict_set (df_columns df) ''trace_index'' (df_index df)\<rparr>)),
                w1)))"

text \<open>
  \<^verbatim>\<open>__save_segy_text_header_as_txt\<close>, \<^verbatim>\<open>__read_and_save_segy_headers\<close> and
  \<^verbatim>\<open>__extract_segy_trace_headers\<close>, which wraps every exception of the two:
  \<^verbatim>\<open>
  try:
      self.__save_segy_text_header_as_txt(file_name)
      self.__read_and_save_segy_headers(file_name)
  except Exception as e:
      raise Exception(f"Error extracting headers: {str(e)}")
  \<close>
  What was written before an exception stays written.
\<close>

definition save_segy_text_header_as_txt :: "world \<Rightarrow> string \<Rightarrow> (exn + unit) \<times> world" where
  "save_segy_text_header_as_txt w file_name =
     (case get_segy_file_path w file_name of
        Inl e \<Rightarrow> (Inl e, w)
      | Inr file_path \<Rightarrow>
          (case get_segy_texthead w file_path of
             Inl e \<Rightarrow> (Inl e, w)
           | Inr segy_header \<Rightarrow>
               (Inr (), w\<lparr>txt_files := (txt_files w)(data_path (file_name @ ''.txt'') \<mapsto> segy_header)\<rparr>)))"

definition read_and_save_segy_headers :: "world \<Rightarrow> string \<Rightarrow> (exn + unit) \<times> world" where
  "read_and_save_segy_headers w file_name =
     (case read_segy_headers w file_name of
        (Inl e, w1) \<Rightarrow> (Inl e, w1)
      | (Inr segy_headers_df, w1) \<Rightarrow> (Inr (), to_parquet w1 segy_headers_df (file_name @ ''.parquet'')))"

definition extract_segy_trace_headers :: "world \<Rightarrow> string \<Rightarrow> (exn + unit) \<times> world" where
  "extract_segy_trace_headers w file_name =
     (case save_segy_text_header_as_txt w file_name of
        (Inl e, w1) \<Rightarrow> (Inl (Exception (''Error extracting headers: '' @ str_exn e)), w1)
      | (Inr u, w1) \<Rightarrow>
          (case read_and_save_segy_headers w1 file_name of
             (Inl e, w2) \<Rightarrow> (Inl (Exception (''Error extracting headers: '' @ str_exn e)), w2)
           | (Inr u2, w2) \<Rightarrow> (Inr (), w2)))"

text \<open>
  \<^verbatim>\<open>
  def get_segy_information(self, current_file):
      segy_file_name = self.get_segy_base_name(current_file)
      segy_file_path = self.get_segy_file_path(segy_file_name)
      extractor = SegyInfoExtractor(segy_file_path, current_file)
      info, scalar = extractor.extract_all_info()
      return info, scalar
  \<close>
  The constructor of the extractor reads the table \<^verbatim>\<open>{current_file}.parquet\<close>.
\<close>

definition get_segy_information :: "string list \<Rightarrow> world \<Rightarrow> string \<Rightarrow> (exn + string \<times> pyval) \<times> world" where
  "get_segy_information available_segy_files w current_file =
     (case get_segy_base_name available_segy_files current_file of
        Inl e \<Rightarrow> (Inl e, w)
      | Inr segy_file_name \<Rightarrow>
          (case get_segy_file_path w segy_file_name of
             Inl e \<Rightarrow> (Inl e, w)
           | Inr path \<Rightarrow>
               (case read_parquet w (current_file @ ''.parquet'') of
                  Inl e \<Rightarrow> (Inl e, w)
                | Inr headers \<Rightarrow>
                    extract_all_info w
                      \<lparr>segy_file_path = path, trace_headers = headers,
                       is_3d = None, segyio_file = None\<rparr>)))"

text \<open>
  \<^verbatim>\<open>
  def get_seismic_statistics(self, current_file):
      json_filename = f"{current_file}.json"
      json_data = self.load_segy_from_json(json_filename)
      if json_data is not None:
          return json_data
      columns = self.get_columns_from_parquet(f"{current_file}.parquet")
      columns = [col for col in columns
                 if col.lower() not in ("amplitude", "amplitudes", "trace_index")]
      info, scalar = self.get_segy_information(current_file)
      json_stats_data = {
          current_file: {"columns": columns, "infos": info, "scalco": scalar}
      }
      self.save_segy_information_to_json(json_filename, json_stats_data)
      return json_stats_data
  \<close>
\<close>

definition get_seismic_statistics :: "string list \<Rightarrow> world \<Rightarrow> string \<Rightarrow> (exn + pyval) \<times> world" where
  "get_seismic_statistics available_segy_files w current_file =
     (let json_filename = current_file @ ''.json''
      in case load_segy_from_json w json_filename of
           Inl e \<Rightarrow> (Inl e, w)
         | Inr (Some json_data) \<Rightarrow> (Inr json_data, w)
         | Inr None \<Rightarrow>
             (case get_columns_from_parquet w (current_file @ ''.parquet'') of
                Inl e \<Rightarrow> (Inl e, w)
              | Inr all_columns \<Rightarrow>
                  (let columns = filter (\<lambda>col. lower col \<notin> set [''amplitude'', ''amplitudes'', ''trace_index''])
                                   all_columns
                   in case get_segy_information available_segy_files w current_file of
                        (Inl e, w1) \<Rightarrow> (Inl e, w1)
                      | (Inr (info, scalar), w1) \<Rightarrow>
                          (let json_stats_data =
                                 PDict [(current_file,
                                   PDict [(''columns'', PList (map PStr columns)),
                                          (''infos'', PStr info),
                                          (''scalco'', scalar)])]
                           in (Inr json_stats_data,
                               save_segy_information_to_json w1 json_filename json_stats_data)))))"

text \<open>
  \<^verbatim>\<open>
  def process_segy_file(self, current_file):
      original_segy_file_name = self.get_segy_base_name(current_file)
      parquet_file_path = os.path.join(self.data_directory, f"{current_file}.parquet")
      if not os.path.exists(parquet_file_path):
          if current_file == original_segy_file_name:
              self.__extract_segy_trace_headers(current_file)
          else:
              raise ValueError(f"Parquet file for {current_file} missing.")
      return self.get_seismic_statistics(current_file)
  \<close>
\<close>

definition process_segy_file :: "string list \<Rightarrow> world \<Rightarrow> string \<Rightarrow> (exn + pyval) \<times> world" where
  "process_segy_file available_segy_files w current_file =
     (case get_segy_base_name available_segy_files current_file of
        Inl e \<Rightarrow> (Inl e, w)
      | Inr original_segy_file_name \<Rightarrow>
          (if parquet_files w (data_path (current_file @ ''.parquet'')) = None
           then (if current_file = original_segy_file_name
                 then (case extract_segy_trace_headers w current_file of
                         (Inl e, w1) \<Rightarrow> (Inl e, w1)
                       | (Inr u, w1) \<Rightarrow> get_seismic_statistics available_segy_files w1 current_file)
                 else (Inl (ValueError (''Parquet file for '' @ current_file @ '' missing.'')), w))
           else get_seismic_statistics available_segy_files w current_file))"

section \<open>Notions of the specification\<close>

text \<open>
  The words of the specification that the statements below compare the code with.
  A column of a well-formed table has one value per row.
\<close>

definition wf_table :: "dataframe \<Rightarrow> bool" where
  "wf_table df = (\<forall>xs\<in>snd ` set (df_columns df). length xs = df_len df)"

text \<open>All values of a column are identical.\<close>

definition all_identical :: "rat list \<Rightarrow> bool" where
  "all_identical vs = (\<forall>x\<in>set vs. \<forall>y\<in>set vs. x = y)"

text \<open>The fold of a CDP value: the size of the group of trace indices that share it.\<close>

definition fold_of :: "rat list \<Rightarrow> rat \<Rightarrow> nat" where
  "fold_of vs v = card {i. i < length vs \<and> vs ! i = v}"

text \<open>The mean of the successive differences of a column.\<close>

definition mean_successive_diff :: "rat list \<Rightarrow> rat" where
  "mean_successive_diff xs =
     (\<Sum>i<length xs - 1. xs ! Suc i - xs ! i) / of_nat (length xs - 1)"

text \<open>
  The number of hundredths nearest to the magnitude of a number, and a decimal numeral
  read back as the number it denotes.
\<close>

definition hundredths :: "rat \<Rightarrow> nat" where
  "hundredths r = nat (round_half_even (\<bar>r\<bar> * 100))"

definition digit_value :: "char \<Rightarrow> nat" where
  "digit_value c = of_char c - 48"

definition read_nat :: "string \<Rightarrow> nat" where
  "read_nat s = foldl (\<lambda>a c. 10 * a + digit_value c) 0 s"

section \<open>Example tables and files\<close>

text \<open>A table of three traces, two of them at the same CDP, shot from left to right.\<close>

definition example_headers :: dataframe where
  "example_headers =
     \<lparr>df_index = [0, 1, 2],
      df_columns = [(''SourceX'', [0, 10, 20]), (''CDP'', [1, 1, 2]), (''trace_index'', [0, 1, 2])]\<rparr>"

text \<open>A table of two traces at one CDP.\<close>

definition single_cdp_headers :: dataframe where
  "single_cdp_headers =
     \<lparr>df_index = [0, 1],
      df_columns = [(''SourceX'', [30, 10]), (''CDP'', [7, 7]), (''trace_index'', [0, 1])]\<rparr>"

text \<open>A table with the columns of the first and no row.\<close>

definition empty_headers :: dataframe where
  "empty_headers =
     \<lparr>df_index = [],
      df_columns = [(''SourceX'', []), (''CDP'', []), (''trace_index'', [])]\<rparr>"

text \<open>An extractor over a table, before it is entered and after a relaxed (2D) opening.\<close>

definition extractor_of :: "dataframe \<Rightarrow> extractor" where
  "extractor_of headers =
     \<lparr>segy_file_path = ''./data/line.sgy'', trace_headers = headers,
      is_3d = Some False, segyio_file = None\<rparr>"

text \<open>An extractor as its constructor leaves it.\<close>

definition new_extractor :: "dataframe \<Rightarrow> extractor" where
  "new_extractor headers =
     \<lparr>segy_file_path = ''./data/line.sgy'', trace_headers = headers,
      is_3d = None, segyio_file = None\<rparr>"

text \<open>
  A SEG-Y file of three traces that segyio cannot sort (a 2D line), the same file with
  a regular geometry, and the same file truncated.
\<close>

definition line_file :: segy_file where
  "line_file =
     \<lparr>sf_strict_error = Some (RuntimeError ''unable to find sorting, check your file''),
      sf_relaxed_error = None,
      sf_bin = [(''Interval'', PInt 4000), (''JobID'', PInt 0), (''Samples'', PInt 1500), (''Traces'', PInt 3)],
      sf_tracecount = 3,
      sf_texthead = ''C 1 CLIENT'',
      sf_scan_mean = [(''SourceX'', Finite 10), (''offset'', Finite 0), (''CDP'', Finite (4 / 3))],
      sf_scrape =
        \<lparr>df_index = [0, 1, 2],
         df_columns = [(''SourceX'', [0, 10, 20]), (''offset'', [0, 0, 0]), (''CDP'', [1, 1, 2])]\<rparr>\<rparr>"

definition cube_file :: segy_file where
  "cube_file = line_file\<lparr>sf_strict_error := None\<rparr>"

definition truncated_file :: segy_file where
  "truncated_file =
     line_file\<lparr>sf_strict_error := Some (RuntimeError ''trace count inconsistent with file size'')\<rparr>"

text \<open>A data directory that holds one SEG-Y file and no cache.\<close>

definition world_of :: "segy_file \<Rightarrow> world" where
  "world_of f =
     \<lparr>segy_files = [''./data/line.sgy'' \<mapsto> f],
      parquet_files = Map.empty,
      json_files = Map.empty,
      txt_files = Map.empty,
      binfield_dir = [''Interval'', ''JobID'', ''Samples'', ''Traces'', ''__doc__'', ''_value'', ''enums''],
      segy_opens = 0\<rparr>"

text \<open>The extractor over the example table after it was entered on the 2D line.\<close>

definition line_extractor :: extractor where
  "line_extractor =
     (new_extractor example_headers)
       \<lparr>is_3d := Some False,
        segyio_file := Some \<lparr>h_file = line_file, h_ignore_geometry = True\<rparr>\<rparr>"

text \<open>
  The same, on a file whose binary header has a sampling interval of zero and a field
  that only a later version of the library lists.
\<close>

definition zero_interval_extractor :: extractor where
  "zero_interval_extractor =
     (new_extractor example_headers)
       \<lparr>is_3d := Some False,
        segyio_file := Some
          \<lparr>h_file = line_file
             \<lparr>sf_bin := [(''Interval'', PInt 0), (''Samples'', PInt 1500), (''SurveyKind'', PInt 7)]\<rparr>,
           h_ignore_geometry = True\<rparr>\<rparr>"

section \<open>Rounding to binary64: properties\<close>

lemma bit_length_bounds: "0 < n \<Longrightarrow> 2 ^ (bit_length n - 1) \<le> n \<and> n < 2 ^ bit_length n"
proof (induction n rule: bit_length.induct)
  case (1 n)
  show ?case
  proof (cases "n div 2 = 0")
    case True
    with 1 have "n = 1" by (simp add: div_eq_0_iff)
    then show ?thesis by (simp add: bit_length.simps)
  next
    case False
    then have pos: "0 < n div 2" by simp
    from 1 have "n \<noteq> 0" by simp
    from "1.IH" [OF this pos]
    have ih: "2 ^ (bit_length (n div 2) - 1) \<le> n div 2" "n div 2 < 2 ^ bit_length (n div 2)"
      by simp_all
    have b: "bit_length n = Suc (bit_length (n div 2))"
      using 1 by (subst bit_length.simps) simp
    have p: "0 < bit_length (n div 2)"
      using pos by (subst bit_length.simps) simp
    then have "(2::nat) ^ bit_length (n div 2) = 2 * 2 ^ (bit_length (n div 2) - 1)"
      by (cases "bit_length (n div 2)") simp_all
    with ih have "2 * 2 ^ (bit_length (n div 2) - 1) \<le> 2 * (n div 2)"
      "2 * (n div 2) + 1 < 2 * 2 ^ bit_length (n div 2)" by simp_all
    moreover have "2 * (n div 2) \<le> n" "n \<le> 2 * (n div 2) + 1" by presburger+
    ultimately have "2 * 2 ^ (bit_length (n div 2) - 1) \<le> n" "n < 2 * 2 ^ bit_length (n div 2)"
      by linarith+
    with \<open>(2::nat) ^ bit_length (n div 2) = 2 * 2 ^ (bit_length (n div 2) - 1)\<close>
    show ?thesis unfolding b by simp
  qed
qed

lemma floor_pos_nat: "1 \<le> (a::rat) \<Longrightarrow> 0 < nat \<lfloor>a\<rfloor>"
  by (simp add: le_floor_iff)

lemma ilog2_ge1: "1 \<le> a \<Longrightarrow> ilog2 a = int (bit_length (nat \<lfloor>a\<rfloor>)) - 1"
  by (simp add: ilog2_def)

lemma ilog2_lt1_power:
  "\<not> 1 \<le> a \<Longrightarrow> a * 2 powi (int (bit_length (nat \<lfloor>1 / a\<rfloor>)) - 1) = 1 \<Longrightarrow>
   ilog2 a = - (int (bit_length (nat \<lfloor>1 / a\<rfloor>)) - 1)"
  by (simp add: ilog2_def Let_def)

lemma ilog2_lt1_other:
  "\<not> 1 \<le> a \<Longrightarrow> a * 2 powi (int (bit_length (nat \<lfloor>1 / a\<rfloor>)) - 1) \<noteq> 1 \<Longrightarrow>
   ilog2 a = - int (bit_length (nat \<lfloor>1 / a\<rfloor>))"
  by (simp add: ilog2_def Let_def)

lemma bit_length_pos: "0 < n \<Longrightarrow> 0 < bit_length n"
  by (subst bit_length.simps) simp

lemma ilog2_lower_ge1:
  assumes "1 \<le> a"
  shows "2 powi ilog2 a \<le> a"
proof -
  define n where "n = nat \<lfloor>a\<rfloor>"
  have n: "0 < n" unfolding n_def using assms by (rule floor_pos_nat)
  from bit_length_bounds [OF n] have "2 ^ (bit_length n - 1) \<le> n" by simp
  then have "(of_nat (2 ^ (bit_length n - 1)) :: rat) \<le> of_nat n"
    by (simp only: of_nat_le_iff)
  then have "(2::rat) ^ (bit_length n - 1) \<le> of_nat n"
    by simp
  also have "(of_nat n :: rat) = of_int \<lfloor>a\<rfloor>"
    unfolding n_def using assms by (simp add: le_floor_iff)
  also have "\<dots> \<le> a" by (rule of_int_floor_le)
  finally have le: "(2::rat) ^ (bit_length n - 1) \<le> a" .
  have "int (bit_length n) - 1 = int (bit_length n - 1)"
    using bit_length_pos [OF n] by simp
  then have "ilog2 a = int (bit_length n - 1)"
    using ilog2_ge1 [OF assms] by (simp only: n_def)
  then show ?thesis using le by (simp only: power_int_of_nat)
qed

lemma ilog2_lower_lt1:
  assumes "0 < a" "\<not> 1 \<le> a"
  shows "2 powi ilog2 a \<le> a"
proof -
  define n where "n = nat \<lfloor>1 / a\<rfloor>"
  have one: "1 \<le> 1 / a" using assms by simp
  then have n: "0 < n" unfolding n_def by (rule floor_pos_nat)
  define j where "j = int (bit_length n) - 1"
  show ?thesis
  proof (cases "a * 2 powi j = 1")
    case True
    then have v: "ilog2 a = - j"
      unfolding j_def n_def using assms(2) by (rule ilog2_lt1_power [rotated])
    have "2 powi j * 2 powi (- j) = (1::rat)"
      by (simp add: power_int_minus)
    then have "a * 2 powi j * 2 powi (- j) = a"
      by (simp only: mult.assoc mult_1_right)
    then have "2 powi (- j) = a"
      by (simp only: True mult_1_left)
    then show ?thesis unfolding v by simp
  next
    case False
    then have v: "ilog2 a = - int (bit_length n)"
      unfolding j_def n_def using assms(2) by (rule ilog2_lt1_other [rotated])
    from bit_length_bounds [OF n] have "n + 1 \<le> 2 ^ bit_length n" by simp
    then have "(of_nat (n + 1) :: rat) \<le> of_nat (2 ^ bit_length n)"
      by (simp only: of_nat_le_iff)
    then have up: "(of_nat (n + 1) :: rat) \<le> 2 ^ bit_length n"
      by simp
    have "1 / a < of_int (\<lfloor>1 / a\<rfloor> + 1)" by (rule floor_correct [THEN conjunct2])
    also have "\<lfloor>1 / a\<rfloor> + 1 = int (n + 1)"
    proof -
      have "1 \<le> \<lfloor>1 / a\<rfloor>" using one by (simp only: le_floor_iff of_int_1)
      then have "0 \<le> \<lfloor>1 / a\<rfloor>" by linarith
      then have "int (nat \<lfloor>1 / a\<rfloor>) = \<lfloor>1 / a\<rfloor>" by (rule nat_0_le)
      then show ?thesis by (simp only: n_def of_nat_add of_nat_1)
    qed
    finally have lt: "1 / a < of_nat (n + 1)" by simp
    from lt up have "1 / a < 2 ^ bit_length n" by (rule less_le_trans)
    then have "1 < 2 ^ bit_length n * a"
      using assms(1) by (simp only: pos_divide_less_eq)
    then have "1 / 2 ^ bit_length n < a"
      by (simp add: pos_divide_less_eq mult.commute)
    moreover have "2 powi (- int (bit_length n)) = (1::rat) / 2 ^ bit_length n"
      by (simp add: power_int_minus divide_inverse)
    ultimately show ?thesis unfolding v by simp
  qed
qed

lemma ilog2_lower: "0 < a \<Longrightarrow> 2 powi ilog2 a \<le> a"
  using ilog2_lower_ge1 ilog2_lower_lt1 by blast

lemma fl_0 [simp]: "fl 0 = 0"
  by (simp add: fl_def)

lemma round_half_even_ge: "of_int k \<le> x \<Longrightarrow> k \<le> round_half_even x"
proof -
  assume "of_int k \<le> x"
  then have "k \<le> \<lfloor>x\<rfloor>" by (simp only: le_floor_iff)
  moreover have "\<lfloor>x\<rfloor> \<le> round_half_even x"
    by (simp add: round_half_even_def Let_def)
  ultimately show ?thesis by simp
qed

lemma fl_mantissa_pos:
  assumes "0 < a"
  shows "0 < round_half_even (a / 2 powi (ilog2 a - 52))"
proof -
  have p: "(0::rat) < 2 powi (ilog2 a - 52)" by simp
  have "2 powi (ilog2 a - 52) = 2 powi ilog2 a / (2 ^ 52 :: rat)"
    by (simp add: power_int_diff)
  also have "\<dots> \<le> a / 2 ^ 52"
    using ilog2_lower [OF assms] by (simp only: divide_right_mono zero_le_numeral zero_le_power)
  finally have "2 ^ 52 * 2 powi (ilog2 a - 52) \<le> a"
    by (simp add: pos_le_divide_eq mult.commute)
  then have "(2 ^ 52 :: rat) \<le> a / 2 powi (ilog2 a - 52)"
    using p by (simp only: pos_le_divide_eq)
  then have "(1::rat) \<le> a / 2 powi (ilog2 a - 52)"
    by (rule order_trans [rotated]) simp
  then have "(1::int) \<le> round_half_even (a / 2 powi (ilog2 a - 52))"
    by (intro round_half_even_ge) simp
  then show ?thesis by simp
qed

text \<open>Rounding to binary64 keeps the sign.\<close>

lemma fl_pos_iff: "0 < fl r \<longleftrightarrow> 0 < r"
proof (cases "r = 0")
  case True
  then show ?thesis by simp
next
  case False
  then have a: "0 < \<bar>r\<bar>" by simp
  define m where "m = round_half_even (\<bar>r\<bar> / 2 powi (ilog2 \<bar>r\<bar> - 52))"
  have m: "0 < m" unfolding m_def using a by (rule fl_mantissa_pos)
  have v: "fl r = sgn r * of_int m * 2 powi (ilog2 \<bar>r\<bar> - 52)"
    using False by (simp add: fl_def Let_def m_def)
  have q: "(0::rat) < of_int m * 2 powi (ilog2 \<bar>r\<bar> - 52)"
    using m by simp
  show ?thesis
  proof (cases "0 < r")
    case True
    then have "fl r = of_int m * 2 powi (ilog2 \<bar>r\<bar> - 52)"
      unfolding v by simp
    with q True show ?thesis by simp
  next
    case neg: False
    with False have "r < 0" by simp
    then have "fl r = - (of_int m * 2 powi (ilog2 \<bar>r\<bar> - 52))"
      unfolding v by simp
    with q neg show ?thesis by simp
  qed
qed

lemma floor_rat_numeral_div: "\<lfloor>(numeral a :: rat) / numeral b\<rfloor> = numeral a div numeral b"
  by (metis floor_divide_of_int_eq of_int_numeral)

lemma ilog2_3_2: "ilog2 (3 / 2) = 0"
  by (simp add: ilog2_def floor_rat_numeral_div bit_length.simps)

lemma fl_3_2: "fl (3 / 2) = 3 / 2"
  by (simp add: fl_def ilog2_3_2 Let_def round_half_even_def)

lemma fl_4: "fl 4 = 4"
  by (simp add: fl_def ilog2_def Let_def bit_length.simps round_half_even_def)

lemma ilog2_43_40: "ilog2 (43 / 40) = 0"
  by (simp add: ilog2_def floor_rat_numeral_div bit_length.simps)

lemma fl_43_40: "fl (43 / 40) = 4841369599423283 / 4503599627370496"
  by (simp add: fl_def ilog2_43_40 Let_def round_half_even_def floor_rat_numeral_div)

section \<open>The numeric formatting rule: properties\<close>

lemma digit_char_in: "d < 10 \<Longrightarrow> digit_char d \<in> set ''0123456789''"
  unfolding digit_char_def by (rule nth_mem) simp

lemma str_nat_digits: "set (str_nat n) \<subseteq> set ''0123456789''"
proof (induction n rule: str_nat.induct)
  case (1 n)
  show ?case
  proof (cases "n < 10")
    case True
    then show ?thesis
      using digit_char_in [of n] by (subst str_nat.simps) simp
  next
    case False
    have "n mod 10 < 10" by simp
    then have "digit_char (n mod 10) \<in> set ''0123456789''" by (rule digit_char_in)
    with False 1 show ?thesis
      by (subst str_nat.simps) simp
  qed
qed

lemma str_nat_nonempty: "str_nat n \<noteq> []"
  by (subst str_nat.simps) simp

lemma str_nat_last: "last (str_nat n) \<noteq> CHR ''.''"
proof -
  have "last (str_nat n) \<in> set (str_nat n)"
    using str_nat_nonempty by (rule last_in_set)
  with str_nat_digits [of n] show ?thesis by auto
qed

lemma round_half_even_of_int: "round_half_even (of_int i) = i"
  by (simp add: round_half_even_def)

lemma fixed2_of_nat: "fixed2 (of_nat n) = str_nat n @ ''.00''"
proof -
  have "round_half_even (of_nat n * 100) = int (n * 100)"
    using round_half_even_of_int [of "int (n * 100)"] by simp
  moreover have "nat (int (n * 100)) = n * 100" by simp
  ultimately show ?thesis
    by (simp add: fixed2_def digit_char_def Let_def del: of_nat_mult)
qed

lemma rstrip_whole: "s \<noteq> [] \<Longrightarrow> last s \<noteq> CHR ''.'' \<Longrightarrow>
  rstrip CHR ''.'' (rstrip CHR ''0'' (s @ ''.00'')) = s"
proof -
  assume ne: "s \<noteq> []" and l: "last s \<noteq> CHR ''.''"
  from ne obtain ys y where s: "s = ys @ [y]" by (cases s rule: rev_cases) auto
  with l have "y \<noteq> CHR ''.''" by simp
  then show ?thesis unfolding s by (simp add: rstrip_def)
qed

text \<open>A float that is a whole number is rendered as the text of that integer.\<close>

lemma format_number_whole: "format_number (PFloat (Finite (of_int i))) = PStr (str_int i)"
proof (cases "i < 0")
  case False
  then have "fixed2 (of_int i) = str_nat (nat i) @ ''.00''"
    using fixed2_of_nat [of "nat i"] by simp
  with False show ?thesis
    using rstrip_whole [OF str_nat_nonempty str_nat_last, of "nat i"]
    by (simp add: str_int_def)
next
  case True
  then have f: "fixed2 (- of_int i) = str_nat (nat (- i)) @ ''.00''"
    using fixed2_of_nat [of "nat (- i)"] by simp
  have "rstrip CHR ''.'' (rstrip CHR ''0'' ((CHR ''-'' # str_nat (nat (- i))) @ ''.00''))
      = CHR ''-'' # str_nat (nat (- i))"
    by (rule rstrip_whole) (simp_all add: str_nat_nonempty str_nat_last)
  with True f show ?thesis
    by (simp add: str_int_def)
qed

lemma format_number_zero: "format_number (PFloat (Finite 0)) = PStr ''0''"
  using format_number_whole [of 0] by (simp add: str_int_def str_nat.simps digit_char_def)

section \<open>The scaling factor\<close>

lemma get_trace_header_value_present:
  "map_of (df_columns table) key = Some xs \<Longrightarrow> get_trace_header_value table key = Column xs"
  by (simp add: get_trace_header_value_def)

text \<open>The scaling factor is always the formatted text of the mean, never the default.\<close>

lemma extract_scaling_factor_text:
  "extract_scaling_factor self =
     format_number (PFloat (hv_mean (get_trace_header_value (trace_headers self) ''SourceGroupScalar'')))"
  by (simp add: extract_scaling_factor_def Let_def)

lemma extract_scaling_factor_not_default: "extract_scaling_factor self \<noteq> PInt 1"
  by (simp add: extract_scaling_factor_text)

text \<open>
  Claim C5. The scaling factor is the mean of \<^verbatim>\<open>SourceGroupScalar\<close> rendered by
  \<^verbatim>\<open>format_number\<close>. On a table whose mean is exactly zero (here: the column is absent,
  as it is for every file whose scalar field is all zero) the code returns the text
  \<^verbatim>\<open>"0"\<close>: the rendered mean is a string, which Python never finds equal to the number
  \<^verbatim>\<open>0\<close>, so the default \<^verbatim>\<open>1\<close> is not taken.
\<close>

theorem extract_scaling_factor_zero_mean:
  "hv_mean (get_trace_header_value \<lparr>df_index = [0, 1], df_columns = [(''trace_index'', [0, 1])]\<rparr>
      ''SourceGroupScalar'') = Finite 0
   \<and> extract_scaling_factor
        \<lparr>segy_file_path = ''./data/line.sgy'',
         trace_headers = \<lparr>df_index = [0, 1], df_columns = [(''trace_index'', [0, 1])]\<rparr>,
         is_3d = Some False, segyio_file = None\<rparr> = PStr ''0''"
  by (simp add: extract_scaling_factor_text format_number_zero hv_mean_def mean_list_def
      get_trace_header_value_def df_len_def numeral_2_eq_2 del: format_number.simps)

section \<open>Dicts\<close>

lemma map_of_dict_set: "map_of (dict_set d k v) = (map_of d)(k \<mapsto> v)"
  by (induction d) (auto simp: fun_eq_iff)

section \<open>Plot direction\<close>

lemma thenE_Inr_iff: "thenE m f = Inr y \<longleftrightarrow> (\<exists>x. m = Inr x \<and> f x = Inr y)"
  by (cases m) (simp_all add: thenE_def)

lemma thenE_Inr [simp]: "thenE (Inr x) f = f x"
  by (simp add: thenE_def)

lemma thenE_Inl [simp]: "thenE (Inl e) f = Inl e"
  by (simp add: thenE_def)

lemma not_nan_map_Finite [simp]: "not_nan (map Finite ds) = ds"
  by (induction ds) simp_all

lemma length_succ_diffs [simp]: "length (succ_diffs xs) = length xs - 1"
  by (simp add: succ_diffs_def)

lemma not_nan_pd_diff: "not_nan (pd_diff v) = succ_diffs (hv_values v)"
proof (cases "hv_values v")
  case Nil
  then show ?thesis by (simp add: pd_diff_def succ_diffs_def)
next
  case (Cons x xs)
  then show ?thesis by (simp add: pd_diff_def)
qed

lemma nth_succ_diffs: "i < length xs - 1 \<Longrightarrow> succ_diffs xs ! i = xs ! Suc i - xs ! i"
  by (simp add: succ_diffs_def nth_tl)

lemma sum_list_succ_diffs: "sum_list (succ_diffs xs) = (\<Sum>i<length xs - 1. xs ! Suc i - xs ! i)"
proof -
  have "sum_list (succ_diffs xs) = (\<Sum>i = 0..<length (succ_diffs xs). succ_diffs xs ! i)"
    by (rule sum_list_sum_nth)
  also have "\<dots> = (\<Sum>i = 0..<length xs - 1. xs ! Suc i - xs ! i)"
    by (rule sum.cong) (simp_all add: nth_succ_diffs)
  finally show ?thesis by (simp add: atLeast0LessThan)
qed

text \<open>The mean of the differences pandas computes is the mean of the specification.\<close>

lemma pd_mean_pd_diff:
  assumes "2 \<le> length (hv_values v)"
  shows "pd_mean (pd_diff v) = Finite (fl (mean_successive_diff (hv_values v)))"
proof -
  have "succ_diffs (hv_values v) \<noteq> []"
    using assms by (metis length_succ_diffs list.size(3) diff_is_0_eq not_less_eq_eq one_add_one plus_1_eq_Suc)
  then show ?thesis
    by (simp add: pd_mean_def not_nan_pd_diff mean_list_def sum_list_succ_diffs mean_successive_diff_def)
qed

text \<open>The differences telescope: the direction compares the last source X with the first.\<close>

lemma mean_successive_diff_telescope:
  "mean_successive_diff xs = (xs ! (length xs - 1) - xs ! 0) / of_nat (length xs - 1)"
  by (simp add: mean_successive_diff_def sum_lessThan_telescope)

lemma pd_mode_nonempty:
  assumes "not_nan s \<noteq> []"
  shows "pd_mode s \<noteq> []"
proof -
  define vs where "vs = not_nan s"
  define c where "c = Max (count_list vs ` set vs)"
  have "c \<in> count_list vs ` set vs"
    unfolding c_def using assms by (intro Max_in) (simp_all add: vs_def)
  then obtain v where "v \<in> set vs" "count_list vs v = c" by auto
  then have "filter (\<lambda>v. count_list vs v = c) vs \<noteq> []"
    by (auto simp: filter_empty_conv)
  then have "length (sort (remdups (filter (\<lambda>v. count_list vs v = c) vs))) \<noteq> 0"
    by simp
  then have "sort (remdups (filter (\<lambda>v. count_list vs v = c) vs)) \<noteq> []"
    by (simp only: length_0_conv not_False_eq_True)
  with assms show ?thesis
    by (simp add: pd_mode_def Let_def vs_def [symmetric] c_def [symmetric])
qed

lemma mode_0_returns_iff: "(\<exists>m. mode_0 (pd_diff v) = Inr m) \<longleftrightarrow> 2 \<le> length (hv_values v)"
proof
  assume "\<exists>m. mode_0 (pd_diff v) = Inr m"
  then have "pd_mode (pd_diff v) \<noteq> []"
    by (auto simp: mode_0_def split: list.splits)
  then have "not_nan (pd_diff v) \<noteq> []"
    by (auto simp: pd_mode_def Let_def)
  then have "length (succ_diffs (hv_values v)) \<noteq> 0"
    by (simp add: not_nan_pd_diff del: length_succ_diffs)
  then show "2 \<le> length (hv_values v)" by simp
next
  assume "2 \<le> length (hv_values v)"
  then have "length (succ_diffs (hv_values v)) \<noteq> 0" by simp
  then have "not_nan (pd_diff v) \<noteq> []"
    by (simp add: not_nan_pd_diff del: length_succ_diffs)
  then have "pd_mode (pd_diff v) \<noteq> []" by (rule pd_mode_nonempty)
  then show "\<exists>m. mode_0 (pd_diff v) = Inr m"
    by (auto simp: mode_0_def split: list.splits)
qed

lemma extract_basic_info_plot_direction:
  assumes "extract_basic_info self = Inr info"
  shows "(\<exists>m. mode_0 (pd_diff (get_trace_header_value (trace_headers self) ''SourceX'')) = Inr m)
       \<and> map_of info ''plot_direction'' =
           Some (PStr (if float_gt_0 (pd_mean (pd_diff (get_trace_header_value (trace_headers self) ''SourceX'')))
                       then ''LR'' else ''RL''))"
  using assms
  by (auto simp: extract_basic_info_def Let_def thenE_Inr_iff dict_update_def map_of_dict_set
      simp del: format_number.simps split: if_splits)

lemma hv_values_length:
  assumes "wf_table table"
  shows "length (hv_values (get_trace_header_value table key)) = df_len table"
proof (cases "map_of (df_columns table) key")
  case None
  then show ?thesis by (simp add: get_trace_header_value_def)
next
  case (Some xs)
  then have "xs \<in> snd ` set (df_columns table)"
    by (metis map_of_SomeD snd_conv image_eqI)
  with assms have "length xs = df_len table" by (auto simp: wf_table_def)
  with Some show ?thesis by (simp add: get_trace_header_value_def)
qed

lemma hv_max_returns:
  assumes "hv_values v \<noteq> []"
  shows "\<exists>r. hv_max v = Inr r \<and> (\<exists>q. truediv_1000 r = Inr q)"
  using assms by (cases v) auto

lemma hv_min_returns:
  assumes "hv_values v \<noteq> []"
  shows "\<exists>r. hv_min v = Inr r"
  using assms by (cases v) auto

lemma extract_basic_info_returns:
  assumes wf: "wf_table (trace_headers self)" and n: "2 \<le> df_len (trace_headers self)"
  shows "\<exists>info. extract_basic_info self = Inr info"
proof -
  define hv where "hv = get_trace_header_value (trace_headers self)"
  have len: "\<And>key. length (hv_values (hv key)) = df_len (trace_headers self)"
    unfolding hv_def using wf by (rule hv_values_length)
  have ne: "\<And>key. hv_values (hv key) \<noteq> []"
    using len n by (metis list.size(3) not_numeral_le_zero)
  obtain m where m: "mode_0 (pd_diff (hv ''SourceX'')) = Inr m"
    using mode_0_returns_iff [of "hv ''SourceX''"] len n by auto
  obtain r q where r: "hv_max (hv ''DelayRecordingTime'') = Inr r" "truediv_1000 r = Inr q"
    using hv_max_returns [OF ne] by blast
  obtain a1 where a1: "hv_min (hv ''offset'') = Inr a1" using hv_min_returns [OF ne] by blast
  obtain a2 where a2: "hv_max (hv ''offset'') = Inr a2" using hv_max_returns [OF ne] by blast
  obtain a3 where a3: "hv_min (hv ''CDP'') = Inr a3" using hv_min_returns [OF ne] by blast
  obtain a4 where a4: "hv_max (hv ''CDP'') = Inr a4" using hv_max_returns [OF ne] by blast
  obtain a5 where a5: "hv_min (hv ''INLINE_3D'') = Inr a5" using hv_min_returns [OF ne] by blast
  obtain a6 where a6: "hv_max (hv ''INLINE_3D'') = Inr a6" using hv_max_returns [OF ne] by blast
  obtain a7 where a7: "hv_min (hv ''CROSSLINE_3D'') = Inr a7" using hv_min_returns [OF ne] by blast
  obtain a8 where a8: "hv_max (hv ''CROSSLINE_3D'') = Inr a8" using hv_max_returns [OF ne] by blast
  show ?thesis
    unfolding extract_basic_info_def Let_def hv_def [symmetric]
    by (simp add: m r a1 a2 a3 a4 a5 a6 a7 a8 del: format_number.simps)
qed

text \<open>
  Claim C9, as amended. Whenever basic info is produced, its plot-direction statistic is
  \<^verbatim>\<open>"LR"\<close> when the mean of the successive differences of the source X coordinate is
  positive and \<^verbatim>\<open>"RL"\<close> otherwise; and basic info is produced for every well-formed
  header table of at least two rows.
\<close>

theorem plot_direction_rule:
  "(extract_basic_info self = Inr info \<longrightarrow>
      map_of info ''plot_direction'' =
        Some (PStr (if 0 < mean_successive_diff
                            (hv_values (get_trace_header_value (trace_headers self) ''SourceX''))
                    then ''LR'' else ''RL'')))
   \<and> (wf_table (trace_headers self) \<and> 2 \<le> df_len (trace_headers self) \<longrightarrow>
        (\<exists>info'. extract_basic_info self = Inr info'))"
proof (intro conjI impI)
  assume r: "extract_basic_info self = Inr info"
  define sx where "sx = get_trace_header_value (trace_headers self) ''SourceX''"
  from extract_basic_info_plot_direction [OF r]
  have m: "\<exists>m. mode_0 (pd_diff sx) = Inr m"
    and d: "map_of info ''plot_direction'' =
           Some (PStr (if float_gt_0 (pd_mean (pd_diff sx)) then ''LR'' else ''RL''))"
    by (simp_all add: sx_def)
  from m have "2 \<le> length (hv_values sx)" by (simp add: mode_0_returns_iff)
  then have "pd_mean (pd_diff sx) = Finite (fl (mean_successive_diff (hv_values sx)))"
    by (rule pd_mean_pd_diff)
  with d show "map_of info ''plot_direction'' =
      Some (PStr (if 0 < mean_successive_diff (hv_values sx) then ''LR'' else ''RL''))"
    by (simp add: fl_pos_iff)
next
  assume "wf_table (trace_headers self) \<and> 2 \<le> df_len (trace_headers self)"
  then show "\<exists>info'. extract_basic_info self = Inr info'"
    using extract_basic_info_returns by blast
qed

lemma example_headers_wf: "wf_table example_headers \<and> 2 \<le> df_len example_headers"
  by (simp add: wf_table_def example_headers_def df_len_def)

lemma single_cdp_headers_wf: "wf_table single_cdp_headers \<and> 2 \<le> df_len single_cdp_headers"
  by (simp add: wf_table_def single_cdp_headers_def df_len_def)

lemma example_source_x:
  "hv_values (get_trace_header_value example_headers ''SourceX'') = [0, 10, 20]"
  "hv_values (get_trace_header_value single_cdp_headers ''SourceX'') = [30, 10]"
  by (simp_all add: example_headers_def single_cdp_headers_def get_trace_header_value_def)

lemma example_mean_successive_diff:
  "mean_successive_diff [0, 10, 20] = 10" "mean_successive_diff [30, 10] = - 20"
  by (simp_all add: mean_successive_diff_telescope)

theorem plot_direction_rule_witness:
  "(\<exists>info. extract_basic_info (extractor_of example_headers) = Inr info
          \<and> map_of info ''plot_direction'' = Some (PStr ''LR''))
   \<and> (\<exists>info. extract_basic_info (extractor_of single_cdp_headers) = Inr info
          \<and> map_of info ''plot_direction'' = Some (PStr ''RL''))"
proof -
  have t1: "trace_headers (extractor_of example_headers) = example_headers"
    and t2: "trace_headers (extractor_of single_cdp_headers) = single_cdp_headers"
    by (simp_all add: extractor_of_def)
  from plot_direction_rule [of "extractor_of example_headers"] example_headers_wf
  obtain i1 where i1: "extract_basic_info (extractor_of example_headers) = Inr i1"
    unfolding t1 by blast
  from plot_direction_rule [of "extractor_of single_cdp_headers"] single_cdp_headers_wf
  obtain i2 where i2: "extract_basic_info (extractor_of single_cdp_headers) = Inr i2"
    unfolding t2 by blast
  from plot_direction_rule [of "extractor_of example_headers" i1] i1
  have "map_of i1 ''plot_direction'' = Some (PStr ''LR'')"
    by (simp add: t1 example_source_x example_mean_successive_diff)
  moreover from plot_direction_rule [of "extractor_of single_cdp_headers" i2] i2
  have "map_of i2 ''plot_direction'' = Some (PStr ''RL'')"
    by (simp add: t2 example_source_x example_mean_successive_diff)
  ultimately show ?thesis using i1 i2 by simp
qed

text \<open>
  On the example table the mean of the successive differences of source X is positive
  and the statistic is the text \<^verbatim>\<open>"LR"\<close>, which is not \<^verbatim>\<open>"left-to-right"\<close>.
\<close>

theorem plot_direction_label:
  "0 < mean_successive_diff (hv_values (get_trace_header_value example_headers ''SourceX''))
   \<and> (\<exists>info. extract_basic_info (extractor_of example_headers) = Inr info
          \<and> map_of info ''plot_direction'' = Some (PStr ''LR'')
          \<and> map_of info ''plot_direction'' \<noteq> Some (PStr ''left-to-right''))"
proof -
  have t1: "trace_headers (extractor_of example_headers) = example_headers"
    by (simp add: extractor_of_def)
  obtain i1 where i1: "extract_basic_info (extractor_of example_headers) = Inr i1"
    using extract_basic_info_returns [of "extractor_of example_headers"] example_headers_wf
    unfolding t1 by blast
  have "2 \<le> length (hv_values (get_trace_header_value example_headers ''SourceX''))"
    by (simp add: example_source_x)
  then have "pd_mean (pd_diff (get_trace_header_value example_headers ''SourceX'')) = Finite (fl 10)"
    using pd_mean_pd_diff by (simp add: example_source_x example_mean_successive_diff)
  with extract_basic_info_plot_direction [OF i1]
  have "map_of i1 ''plot_direction'' = Some (PStr ''LR'')"
    by (simp add: t1 fl_pos_iff)
  with i1 show ?thesis
    by (simp add: example_source_x example_mean_successive_diff)
qed

section \<open>Geometry classification\<close>

text \<open>
  Claim C3. Entering the extractor opens the file in strict mode. When that succeeds
  the file is classified 3D. When it raises a \<^verbatim>\<open>RuntimeError\<close> whose message contains
  \<^verbatim>\<open>unable to find sorting\<close>, the file is opened again in relaxed mode and classified 2D
  (a failure of the second opening is raised). Every other failure of the strict opening
  is raised as it is.
\<close>

theorem enter_geometry_classification:
  "(fst (segyio_open w (segy_file_path self) False) = Inr f \<longrightarrow>
      enter w self = (Inr (self\<lparr>is_3d := Some True, segyio_file := Some f\<rparr>),
                      w\<lparr>segy_opens := segy_opens w + 1\<rparr>))
   \<and> (fst (segyio_open w (segy_file_path self) False) = Inl (RuntimeError m)
        \<and> str_in ''unable to find sorting'' m \<longrightarrow>
      enter w self =
        (case fst (segyio_open (w\<lparr>segy_opens := segy_opens w + 1\<rparr>) (segy_file_path self) True) of
           Inr g \<Rightarrow> Inr (self\<lparr>is_3d := Some False, segyio_file := Some g\<rparr>)
         | Inl e2 \<Rightarrow> Inl e2,
         w\<lparr>segy_opens := segy_opens w + 2\<rparr>))
   \<and> (fst (segyio_open w (segy_file_path self) False) = Inl e
        \<and> (\<forall>m'. e = RuntimeError m' \<longrightarrow> \<not> str_in ''unable to find sorting'' m') \<longrightarrow>
      enter w self = (Inl e, w\<lparr>segy_opens := segy_opens w + 1\<rparr>))"
  by (auto simp: enter_def segyio_open_def
      split: option.splits exn.splits prod.splits sum.splits if_splits)

lemma str_in_sorting: "str_in ''unable to find sorting'' ''unable to find sorting, check your file''"
  by simp

lemma str_in_truncated:
  "\<not> str_in ''unable to find sorting'' ''trace count inconsistent with file size''"
  by simp

theorem enter_geometry_classification_witness:
  "enter (world_of cube_file) (new_extractor example_headers) =
     (Inr ((new_extractor example_headers)
        \<lparr>is_3d := Some True,
         segyio_file := Some \<lparr>h_file = cube_file, h_ignore_geometry = False\<rparr>\<rparr>),
      (world_of cube_file)\<lparr>segy_opens := 1\<rparr>)
   \<and> enter (world_of line_file) (new_extractor example_headers) =
     (Inr ((new_extractor example_headers)
        \<lparr>is_3d := Some False,
         segyio_file := Some \<lparr>h_file = line_file, h_ignore_geometry = True\<rparr>\<rparr>),
      (world_of line_file)\<lparr>segy_opens := 2\<rparr>)
   \<and> enter (world_of truncated_file) (new_extractor example_headers) =
     (Inl (RuntimeError ''trace count inconsistent with file size''),
      (world_of truncated_file)\<lparr>segy_opens := 1\<rparr>)"
proof -
  have p: "segy_file_path (new_extractor example_headers) = ''./data/line.sgy''"
    by (simp add: new_extractor_def)
  have a: "fst (segyio_open (world_of cube_file) ''./data/line.sgy'' False)
      = Inr \<lparr>h_file = cube_file, h_ignore_geometry = False\<rparr>"
    by (simp add: segyio_open_def world_of_def cube_file_def)
  have b: "fst (segyio_open (world_of line_file) ''./data/line.sgy'' False)
      = Inl (RuntimeError ''unable to find sorting, check your file'')"
    by (simp add: segyio_open_def world_of_def line_file_def)
  have b2: "\<And>n. fst (segyio_open ((world_of line_file)\<lparr>segy_opens := n\<rparr>) ''./data/line.sgy'' True)
      = Inr \<lparr>h_file = line_file, h_ignore_geometry = True\<rparr>"
    by (simp add: segyio_open_def world_of_def line_file_def)
  have c: "fst (segyio_open (world_of truncated_file) ''./data/line.sgy'' False)
      = Inl (RuntimeError ''trace count inconsistent with file size'')"
    by (simp add: segyio_open_def world_of_def truncated_file_def)
  have o: "\<And>f. segy_opens (world_of f) = 0" by (simp add: world_of_def)
  show ?thesis
    using enter_geometry_classification
      [of "world_of cube_file" "new_extractor example_headers"
          "\<lparr>h_file = cube_file, h_ignore_geometry = False\<rparr>"]
      enter_geometry_classification
      [of "world_of line_file" "new_extractor example_headers" _
          "''unable to find sorting, check your file''"]
      enter_geometry_classification
      [of "world_of truncated_file" "new_extractor example_headers" _ _
          "RuntimeError ''trace count inconsistent with file size''"]
    unfolding p
    by (simp add: a b b2 c o str_in_sorting str_in_truncated del: str_in.simps)
qed

end
